theory Spec2Isabelle
  imports Complex_Main
begin

section \<open>Field parsers of \<open>mimic_utils/parsers.py\<close>\<close>

text \<open>
  The module is a set of column parsers over pandas Series. Every parser works row by row
  (\<open>np.where\<close> and \<open>Series.apply\<close> are elementwise), so a Series is a list and the
  parsers are maps over it. Text entries are \<open>string\<close>; a missing entry of a text column is
  not part of the model, since what \<open>str.contains\<close> and \<open>np.where\<close> do with it is decided
  inside pandas and numpy and not in this module.

  A raised Python exception is a value \<open>Error name\<close>, with the name of the exception's
  class; a function that can raise returns \<open>error + 'a\<close>.
\<close>

datatype error = Error string

type_synonym label = string

subsection \<open>Substring search: \<open>values.str.contains(regexp)\<close>\<close>

text \<open>
  Every pattern of the module is an alternation of parenthesised literals,
  \<open>(A)|(B)|...\<close>, or one literal (\<open>M\<close>, \<open>F\<close>, and \<open>(\?)\<close> for a question mark). Such a
  pattern is found in a value exactly when one of its literals occurs in it as a
  contiguous piece, so a pattern is kept as the list of its literals.
  \<open>str.contains\<close> is called with its defaults: the search is case-sensitive.
\<close>

type_synonym regexp = "string list"

fun startswith :: "string \<Rightarrow> string \<Rightarrow> bool" where
  "startswith s [] = True"
| "startswith [] (c # p) = False"
| "startswith (x # s) (c # p) = (x = c \<and> startswith s p)"

fun occurs :: "string \<Rightarrow> string \<Rightarrow> bool" where
  "occurs p [] = (p = [])"
| "occurs p (x # s) = (startswith (x # s) p \<or> occurs p s)"

fun str_contains :: "regexp \<Rightarrow> string \<Rightarrow> bool" where
  "str_contains [] v = False"
| "str_contains (p # alts) v = (occurs p v \<or> str_contains alts v)"

subsection \<open>The overwrite loop shared by the categorical parsers\<close>

text \<open>
  \<^verbatim>\<open>
  mapped_values = np.empty(values.shape[0]) * np.nan
  for key, regexp in mapping.items():
      mapped_values = np.where(values.str.contains(regexp), key, mapped_values)
  \<close>
  The array starts as all NaN. Each pass over a rule writes the rule's key into the rows
  that match and keeps what the row held otherwise; the first \<open>np.where\<close> turns the array
  into an array of strings, where NaN reads \<open>nan\<close>. A dict iterates in the order its keys
  are written, so a mapping is an association list. \<open>where_loop\<close> is what one row goes
  through; the test of a rule against a value is a parameter, since \<open>parse_time\<close> runs the
  same loop with hour ranges in place of patterns.
\<close>

definition where_loop :: "('p \<Rightarrow> 'v \<Rightarrow> bool) \<Rightarrow> (label \<times> 'p) list \<Rightarrow> 'v \<Rightarrow> label" where
  "where_loop matches mapping v =
     foldl (\<lambda>mapped (key, pat). if matches pat v then key else mapped) ''nan'' mapping"

text \<open>\<open>Series.replace(a, b)\<close> on one entry: an entry equal to \<open>a\<close> becomes \<open>b\<close>.\<close>

definition replace :: "string \<Rightarrow> string \<Rightarrow> string \<Rightarrow> string" where
  "replace a b s = (if s = a then b else s)"

subsection \<open>The text parsers and their mappings\<close>

definition gender_mapping :: "(label \<times> regexp) list" where
  "gender_mapping = [(''Male'', [''M'']), (''Female'', [''F''])]"

definition parse_gender :: "string list \<Rightarrow> label list" where
  "parse_gender values =
     map (replace ''nan'' ''Other'') (map (where_loop str_contains gender_mapping) values)"

definition race_mapping :: "(label \<times> regexp) list" where
  "race_mapping =
    [(''White'', [''WHITE'', ''PORTUGUESE'']),
     (''Hispanic'', [''HISPANIC'']),
     (''Asian'', [''ASIAN'']),
     (''Black'', [''BLACK'']),
     (''Other'', [''OTHER'', ''SOUTH AMERICAN'', ''CARIBBEAN ISLAND'',
        ''NATIVE HAWAIIAN OR OTHER PACIFIC ISLANDER'',
        ''AMERICAN INDIAN/ALASKA NATIVE FEDERALLY RECOGNIZED TRIBE''])]"

definition parse_race :: "string list \<Rightarrow> label list" where
  "parse_race values =
     map (replace ''nan'' ''Unknown'') (map (where_loop str_contains race_mapping) values)"

definition language_mapping :: "(label \<times> regexp) list" where
  "language_mapping = [(''English'', [''ENGLISH'']), (''Other'', [''?''])]"

definition parse_language :: "string list \<Rightarrow> label list" where
  "parse_language values = map (where_loop str_contains language_mapping) values"

definition insurance_mapping :: "(label \<times> regexp) list" where
  "insurance_mapping =
    [(''Medicaid'', [''Medicaid'']), (''Medicare'', [''Medicare'']), (''Other'', [''Other''])]"

definition parse_insurance :: "string list \<Rightarrow> label list" where
  "parse_insurance values = map (where_loop str_contains insurance_mapping) values"

definition careunit_mapping :: "(label \<times> regexp) list" where
  "careunit_mapping =
    [(''Medical-Surgical'', [''Medical Intensive Care Unit'',
        ''Medical/Surgical Intensive Care Unit'', ''Surgical Intensive Care Unit'']),
     (''Cardiac'', [''Cardiac Vascular Intensive Care Unit'', ''Coronary Care Unit'']),
     (''Neuro-Trauma'', [''Neuro Intermediate'', ''Neuro Stepdown'',
        ''Neuro Surgical Intensive Care Unit'', ''Trauma SICU''])]"

definition parse_careunit :: "string list \<Rightarrow> label list" where
  "parse_careunit values = map (where_loop str_contains careunit_mapping) values"

text \<open>The five text parsers, each with the mapping it loops over.\<close>

definition text_parsers :: "((string list \<Rightarrow> label list) \<times> (label \<times> regexp) list) list" where
  "text_parsers =
    [(parse_gender, gender_mapping), (parse_race, race_mapping),
     (parse_language, language_mapping), (parse_insurance, insurance_mapping),
     (parse_careunit, careunit_mapping)]"

subsection \<open>Time of day: \<open>parse_time\<close>\<close>

text \<open>
  \<open>pd.to_datetime(values)\<close> gives timestamps and \<open>.dt.hour\<close> their hour field.
  \<open>Series.between(left, right)\<close> is inclusive at both ends by default.
\<close>

record timestamp =
  year :: int
  month :: nat
  day :: nat
  hour :: nat
  minute :: nat
  second :: nat

definition between :: "nat \<times> nat \<Rightarrow> nat \<Rightarrow> bool" where
  "between item h = (fst item \<le> h \<and> h \<le> snd item)"

definition time_mapping :: "(label \<times> (nat \<times> nat)) list" where
  "time_mapping =
    [(''00-06'', (0, 6)), (''06-12'', (6, 12)), (''12-18'', (12, 18)), (''18-24'', (18, 24))]"

definition parse_time :: "timestamp list \<Rightarrow> label list" where
  "parse_time values = map (where_loop between time_mapping) (map hour values)"

section \<open>Year anchoring: \<open>parse_anchor_year\<close>\<close>

subsection \<open>Python's \<open>str.split\<close>, \<open>str.strip\<close>, \<open>int\<close> and integer formatting\<close>

text \<open>\<open>x.split("-")[0]\<close>: the piece of \<open>x\<close> before its first hyphen, all of \<open>x\<close> when it has none.\<close>

definition split_first :: "char \<Rightarrow> string \<Rightarrow> string" where
  "split_first sep x = takeWhile (\<lambda>c. c \<noteq> sep) x"

text \<open>\<open>s.strip(chars)\<close> drops the leading and trailing characters that are in \<open>chars\<close>.\<close>

definition strip :: "string \<Rightarrow> string \<Rightarrow> string" where
  "strip chars s = rev (dropWhile (\<lambda>c. c \<in> set chars) (rev (dropWhile (\<lambda>c. c \<in> set chars) s)))"

definition whitespace :: string where
  "whitespace = [CHR '' '', CHR 0x09, CHR 0x0A, CHR 0x0B, CHR 0x0C, CHR 0x0D,
                 CHR 0x1C, CHR 0x1D, CHR 0x1E, CHR 0x1F]"

definition digit_val :: "char \<Rightarrow> nat option" where
  "digit_val c = map_of (zip ''0123456789'' [0, 1, 2, 3, 4, 5, 6, 7, 8, 9]) c"

text \<open>
  The digits of a decimal literal, read left to right into an accumulator. Python allows
  one underscore between two digits.
\<close>

fun digits_from :: "nat \<Rightarrow> string \<Rightarrow> nat option" where
  "digits_from acc [] = Some acc"
| "digits_from acc [c] =
     (case digit_val c of None \<Rightarrow> None | Some d \<Rightarrow> Some (10 * acc + d))"
| "digits_from acc (c # c' # s) =
     (case digit_val (if c = CHR ''_'' then c' else c) of
        None \<Rightarrow> None
      | Some d \<Rightarrow> digits_from (10 * acc + d) (if c = CHR ''_'' then s else c' # s))"

definition digits :: "string \<Rightarrow> nat option" where
  "digits s =
     (case s of [] \<Rightarrow> None
      | c # r \<Rightarrow> (case digit_val c of None \<Rightarrow> None | Some d \<Rightarrow> digits_from d r))"

text \<open>
  \<open>int(s)\<close> for a string: white space around the literal is ignored, a sign may come first,
  and anything else raises \<open>ValueError\<close>. Characters are bytes here, so the digits and the
  white space are the ASCII ones.
\<close>

definition py_int :: "string \<Rightarrow> error + int" where
  "py_int s =
     (let t = strip whitespace s;
          r = (case t of
                 [] \<Rightarrow> None
               | c # u \<Rightarrow>
                   if c = CHR ''-'' then map_option (\<lambda>n. - int n) (digits u)
                   else if c = CHR ''+'' then map_option int (digits u)
                   else map_option int (digits t))
      in case r of None \<Rightarrow> Inl (Error ''ValueError'') | Some i \<Rightarrow> Inr i)"

text \<open>The decimal text of an integer, as an f-string writes it.\<close>

fun str_nat :: "nat \<Rightarrow> string" where
  "str_nat n =
     (if n < 10 then [''0123456789'' ! n]
      else str_nat (n div 10) @ [''0123456789'' ! (n mod 10)])"

declare str_nat.simps [simp del]

definition str_int :: "int \<Rightarrow> string" where
  "str_int i = (if i < 0 then ''-'' @ str_nat (nat (- i)) else str_nat (nat i))"

subsection \<open>The resolver\<close>

text \<open>
  \<^verbatim>\<open>
  def anchor_delta(delta):
      delta_anchors=[(2008,2011),(2011,2014),(2014,2017),(2017,2020),(2020,2023)]
      for da in delta_anchors:
          if delta in range(*da):
              output=f"{da[0]} - {da[1]}"
      return output
  \<close>
  \<open>output\<close> is a local variable with no value before the loop: \<open>None\<close> below. Returning it
  while it has none raises \<open>UnboundLocalError\<close>.
\<close>

definition delta_anchors :: "(int \<times> int) list" where
  "delta_anchors = [(2008, 2011), (2011, 2014), (2014, 2017), (2017, 2020), (2020, 2023)]"

definition in_range :: "int \<Rightarrow> int \<times> int \<Rightarrow> bool" where
  "in_range delta da = (fst da \<le> delta \<and> delta < snd da)"

definition anchor_label :: "int \<times> int \<Rightarrow> label" where
  "anchor_label da = str_int (fst da) @ '' - '' @ str_int (snd da)"

definition anchor_delta :: "int \<Rightarrow> error + label" where
  "anchor_delta delta =
     (case foldl (\<lambda>output da. if in_range delta da then Some (anchor_label da) else output)
             None delta_anchors of
        None \<Rightarrow> Inl (Error ''UnboundLocalError'')
      | Some output \<Rightarrow> Inr output)"

text \<open>
  \<open>Series.apply\<close> calls the function on each entry in order; the first exception ends the
  call.
\<close>

fun apply_all :: "('a \<Rightarrow> error + 'b) \<Rightarrow> 'a list \<Rightarrow> error + 'b list" where
  "apply_all f [] = Inr []"
| "apply_all f (x # xs) =
     (case f x of
        Inl e \<Rightarrow> Inl e
      | Inr y \<Rightarrow> (case apply_all f xs of Inl e \<Rightarrow> Inl e | Inr ys \<Rightarrow> Inr (y # ys)))"

text \<open>
  \<^verbatim>\<open>
  anchor_year_group=anchor_year_group.apply(lambda x: int(x.split("-")[0].strip(""))+1)
  delta=anchor_year_group+(date.dt.year-anchor_year)
  return delta.apply(anchor_delta)
  \<close>
  The three Series share their index; a row is the triple of their entries.
\<close>

definition group_offset :: "string \<Rightarrow> error + int" where
  "group_offset x =
     (case py_int (strip [] (split_first (CHR ''-'') x)) of
        Inl e \<Rightarrow> Inl e
      | Inr n \<Rightarrow> Inr (n + 1))"

definition parse_anchor_year :: "(string \<times> timestamp \<times> int) list \<Rightarrow> error + label list" where
  "parse_anchor_year rows =
     (case apply_all group_offset (map fst rows) of
        Inl e \<Rightarrow> Inl e
      | Inr anchor_year_group \<Rightarrow>
          apply_all anchor_delta
            (map (\<lambda>(g, date, anchor_year). g + (year date - anchor_year))
               (zip anchor_year_group (map snd rows))))"

section \<open>Body-mass index: \<open>parse_bmi\<close>\<close>

text \<open>
  The input is a frame with the columns \<open>weight\<close>, \<open>height\<close> and \<open>race\<close>; a missing entry
  is \<open>None\<close>. The numbers are double-precision floats in the source. Here a finite float
  is the real number it stands for, so rounding and overflow are left out; what is kept is
  the part of float arithmetic the branches depend on: NaN for a missing operand, an
  infinity for a division by zero, and comparisons that are false on NaN.
\<close>

record bmi_row =
  weight :: "real option"
  height :: "real option"
  race :: "string option"

datatype fnum = Fin real | PInf | NInf | NaN

text \<open>\<open>(height / 100) ** -2\<close>; numpy gives infinity for a zero height.\<close>

definition height_factor :: "real option \<Rightarrow> fnum" where
  "height_factor h =
     (case h of
        None \<Rightarrow> NaN
      | Some x \<Rightarrow> if x = 0 then PInf else Fin (1 / (x / 100) ^ 2))"

text \<open>\<open>weight * factor\<close>.\<close>

definition times_weight :: "real option \<Rightarrow> fnum \<Rightarrow> fnum" where
  "times_weight w x =
     (case w of
        None \<Rightarrow> NaN
      | Some a \<Rightarrow>
          (case x of
             Fin b \<Rightarrow> Fin (a * b)
           | PInf \<Rightarrow> if 0 < a then PInf else if a < 0 then NInf else NaN
           | NInf \<Rightarrow> if 0 < a then NInf else if a < 0 then PInf else NaN
           | NaN \<Rightarrow> NaN))"

definition bmi :: "bmi_row \<Rightarrow> fnum" where
  "bmi r = times_weight (weight r) (height_factor (height r))"

definition lt :: "fnum \<Rightarrow> real \<Rightarrow> bool" where
  "lt x c = (case x of Fin a \<Rightarrow> a < c | NInf \<Rightarrow> True | PInf \<Rightarrow> False | NaN \<Rightarrow> False)"

definition ge :: "fnum \<Rightarrow> real \<Rightarrow> bool" where
  "ge x c = (case x of Fin a \<Rightarrow> c \<le> a | PInf \<Rightarrow> True | NInf \<Rightarrow> False | NaN \<Rightarrow> False)"

text \<open>\<open>str.lower\<close>, on the ASCII letters.\<close>

definition ascii_uppercase :: string where
  "ascii_uppercase = ''ABCDEFGHIJKLMNOPQRSTUVWXYZ''"

definition ascii_lowercase :: string where
  "ascii_lowercase = ''abcdefghijklmnopqrstuvwxyz''"

definition lower_char :: "char \<Rightarrow> char" where
  "lower_char c =
     (case map_of (zip ascii_uppercase ascii_lowercase) c of
        None \<Rightarrow> c
      | Some d \<Rightarrow> d)"

definition lower :: "string \<Rightarrow> string" where
  "lower s = map lower_char s"

text \<open>
  The inner function \<open>__parse__\<close> of \<open>parse_bmi\<close>, on the \<open>bmi\<close> and \<open>race\<close> of one row. A
  missing race has no method \<open>lower\<close>: \<open>AttributeError\<close>. The two inner chains have no
  \<open>else\<close>, so falling through them would leave \<open>output\<close> without a value.
\<close>

definition parse_row :: "fnum \<Rightarrow> string option \<Rightarrow> error + label" where
  "parse_row b ethnicity =
     (if lt b 16.5 then Inr ''Severly Underweight''
      else if ge b 16.5 \<and> lt b 18.5 then Inr ''Underweight''
      else if ge b 18.5 then
        (case ethnicity of
           None \<Rightarrow> Inl (Error ''AttributeError'')
         | Some e \<Rightarrow>
             if occurs ''asian'' (lower e) then
               (if ge b 18.5 \<and> lt b 23.0 then Inr ''Normal''
                else if ge b 23.0 \<and> lt b 25.0 then Inr ''Overweight''
                else if ge b 25.0 then Inr ''Obesity''
                else Inl (Error ''UnboundLocalError''))
             else
               (if ge b 18.5 \<and> lt b 25.0 then Inr ''Normal''
                else if ge b 25.0 \<and> lt b 30.0 then Inr ''Overweight''
                else if ge b 30.0 then Inr ''Obesity''
                else Inl (Error ''UnboundLocalError'')))
      else Inr ''Unknown or Unavailable'')"

text \<open>
  \<open>temp.height.astype(float).mean()\<close> is the mean of the heights that are present, and NaN
  when none is; \<open>fillna(m)\<close> puts \<open>m\<close> where the height is missing.
\<close>

definition present :: "'a option list \<Rightarrow> 'a list" where
  "present xs = concat (map (\<lambda>x. case x of None \<Rightarrow> [] | Some a \<Rightarrow> [a]) xs)"

definition mean :: "real option list \<Rightarrow> real option" where
  "mean xs =
     (let ys = present xs
      in if ys = [] then None else Some (sum_list ys / real (length ys)))"

definition fillna :: "'a option \<Rightarrow> 'a option \<Rightarrow> 'a option" where
  "fillna m x = (case x of None \<Rightarrow> m | Some a \<Rightarrow> Some a)"

definition impute :: "bmi_row list \<Rightarrow> bmi_row list" where
  "impute temp = map (\<lambda>r. r\<lparr>height := fillna (mean (map height temp)) (height r)\<rparr>) temp"

definition parse_bmi :: "bmi_row list \<Rightarrow> bool \<Rightarrow> error + label list" where
  "parse_bmi values impute_heights =
     (let temp = (if impute_heights then impute values else values)
      in apply_all (\<lambda>r. parse_row (bmi r) (race r)) temp)"

section \<open>Properties of the overwrite loop\<close>

lemma foldl_no_match:
  "\<forall>r \<in> set xs. \<not> matches (snd r) v \<Longrightarrow>
     foldl (\<lambda>mapped (key, pat). if matches pat v then key else mapped) acc xs = acc"
  by (induction xs arbitrary: acc) (auto split: prod.splits)


lemma where_loop_last:
  assumes "j < length mapping"
    and "matches (snd (mapping ! j)) v"
    and "\<And>k. j < k \<Longrightarrow> k < length mapping \<Longrightarrow> \<not> matches (snd (mapping ! k)) v"
  shows "where_loop matches mapping v = fst (mapping ! j)"
proof -
  let ?f = "\<lambda>mapped (key, pat). if matches pat v then key else mapped"
  have split: "mapping = take j mapping @ (mapping ! j) # drop (Suc j) mapping"
    using assms(1) by (simp add: id_take_nth_drop)
  have rest: "\<forall>r \<in> set (drop (Suc j) mapping). \<not> matches (snd r) v"
  proof
    fix r assume "r \<in> set (drop (Suc j) mapping)"
    then obtain i where i: "i < length (drop (Suc j) mapping)"
      and eq: "drop (Suc j) mapping ! i = r"
      by (auto simp: in_set_conv_nth)
    have "mapping ! (Suc j + i) = r" using i eq by simp
    moreover have "Suc j + i < length mapping" using i by simp
    ultimately show "\<not> matches (snd r) v" using assms(3) [of "Suc j + i"] by auto
  qed
  have "foldl ?f ''nan'' mapping =
      foldl ?f (?f (foldl ?f ''nan'' (take j mapping)) (mapping ! j)) (drop (Suc j) mapping)"
    by (subst split) simp
  also have "\<dots> = ?f (foldl ?f ''nan'' (take j mapping)) (mapping ! j)"
    using rest by (rule foldl_no_match)
  also have "\<dots> = fst (mapping ! j)"
    using assms(2) by (cases "mapping ! j") simp
  finally show ?thesis by (simp add: where_loop_def)
qed

lemma labels_not_nan:
  "\<forall>r \<in> set gender_mapping. fst r \<noteq> ''nan''"
  "\<forall>r \<in> set race_mapping. fst r \<noteq> ''nan''"
  by (simp_all add: gender_mapping_def race_mapping_def)

lemma replace_label:
  assumes "\<forall>r \<in> set mapping. fst r \<noteq> ''nan''" and "j < length mapping"
  shows "replace ''nan'' d (fst (mapping ! j)) = fst (mapping ! j)"
  using assms by (simp add: replace_def)

section \<open>Rule priority\<close>

text \<open>
  Claim C1, as the code has it. A value that matches several rules gets the label of the
  LAST rule that matches, in the order of the mapping, because each pass of the loop
  overwrites what an earlier pass wrote: when rule \<open>j\<close> matches the value and no rule
  after \<open>j\<close> does, the result is the label of rule \<open>j\<close>, whatever the rules before \<open>j\<close> do.
  This holds for the loop on any mapping and any test, for the five text parsers
  (gender, race, language, insurance, care unit) and for the time-of-day parser.
\<close>

theorem last_matching_rule_wins:
  "(\<forall>j (v :: 'v). j < length mapping \<and> (matches :: 'p \<Rightarrow> 'v \<Rightarrow> bool) (snd (mapping ! j)) v \<and>
       (\<forall>k. j < k \<and> k < length mapping \<longrightarrow> \<not> matches (snd (mapping ! k)) v) \<longrightarrow>
       where_loop matches mapping v = fst (mapping ! j))
   \<and> (\<forall>parser m j v. (parser, m) \<in> set text_parsers \<and> j < length m \<and>
       str_contains (snd (m ! j)) v \<and>
       (\<forall>k. j < k \<and> k < length m \<longrightarrow> \<not> str_contains (snd (m ! k)) v) \<longrightarrow>
       parser [v] = [fst (m ! j)])
   \<and> (\<forall>j t. j < length time_mapping \<and> between (snd (time_mapping ! j)) (hour t) \<and>
       (\<forall>k. j < k \<and> k < length time_mapping \<longrightarrow> \<not> between (snd (time_mapping ! k)) (hour t)) \<longrightarrow>
       parse_time [t] = [fst (time_mapping ! j)])"
proof (intro conjI allI impI)
  fix j and v :: 'v
  assume "j < length mapping \<and> matches (snd (mapping ! j)) v \<and>
       (\<forall>k. j < k \<and> k < length mapping \<longrightarrow> \<not> matches (snd (mapping ! k)) v)"
  then show "where_loop matches mapping v = fst (mapping ! j)"
    by (intro where_loop_last) auto
next
  fix parser m j v
  assume a: "(parser, m) \<in> set text_parsers \<and> j < length m \<and>
       str_contains (snd (m ! j)) v \<and>
       (\<forall>k. j < k \<and> k < length m \<longrightarrow> \<not> str_contains (snd (m ! k)) v)"
  then have loop: "where_loop str_contains m v = fst (m ! j)"
    by (intro where_loop_last) auto
  from a have "(parser, m) \<in> set text_parsers" and j: "j < length m" by auto
  then consider "parser = parse_gender" "m = gender_mapping"
    | "parser = parse_race" "m = race_mapping"
    | "parser = parse_language" "m = language_mapping"
    | "parser = parse_insurance" "m = insurance_mapping"
    | "parser = parse_careunit" "m = careunit_mapping"
    by (auto simp: text_parsers_def)
  then show "parser [v] = [fst (m ! j)]"
  proof cases
    case 1
    then show ?thesis
      using loop j replace_label [OF labels_not_nan(1)] by (simp add: parse_gender_def)
  next
    case 2
    then show ?thesis
      using loop j replace_label [OF labels_not_nan(2)] by (simp add: parse_race_def)
  next
    case 3
    then show ?thesis using loop by (simp add: parse_language_def)
  next
    case 4
    then show ?thesis using loop by (simp add: parse_insurance_def)
  next
    case 5
    then show ?thesis using loop by (simp add: parse_careunit_def)
  qed
next
  fix j and t :: timestamp
  assume "j < length time_mapping \<and> between (snd (time_mapping ! j)) (hour t) \<and>
       (\<forall>k. j < k \<and> k < length time_mapping \<longrightarrow> \<not> between (snd (time_mapping ! k)) (hour t))"
  then have "where_loop between time_mapping (hour t) = fst (time_mapping ! j)"
    by (intro where_loop_last) auto
  then show "parse_time [t] = [fst (time_mapping ! j)]"
    by (simp add: parse_time_def)
qed

text \<open>
  The care unit \<open>Neuro Surgical Intensive Care Unit (Neuro SICU)\<close> contains
  \<open>Surgical Intensive Care Unit\<close>, a pattern of the first rule, and a pattern of the third
  rule. \<open>parse_careunit\<close> gives it the label of the third rule, not of the first.
\<close>

theorem first_rule_counterexample:
  "str_contains (snd (careunit_mapping ! 0)) ''Neuro Surgical Intensive Care Unit (Neuro SICU)''
   \<and> str_contains (snd (careunit_mapping ! 2)) ''Neuro Surgical Intensive Care Unit (Neuro SICU)''
   \<and> parse_careunit [''Neuro Surgical Intensive Care Unit (Neuro SICU)''] = [fst (careunit_mapping ! 2)]
   \<and> parse_careunit [''Neuro Surgical Intensive Care Unit (Neuro SICU)''] \<noteq> [fst (careunit_mapping ! 0)]"
  by code_simp

text \<open>
  The theorem at a value of the race column: \<open>HISPANIC/LATINO - PUERTO RICAN\<close> matches the
  second rule and none of the three after it.
\<close>

theorem last_matching_rule_wins_witness:
  "(parse_race, race_mapping) \<in> set text_parsers
   \<and> 1 < length race_mapping
   \<and> str_contains (snd (race_mapping ! 1)) ''HISPANIC/LATINO - PUERTO RICAN''
   \<and> \<not> str_contains (snd (race_mapping ! 2)) ''HISPANIC/LATINO - PUERTO RICAN''
   \<and> \<not> str_contains (snd (race_mapping ! 3)) ''HISPANIC/LATINO - PUERTO RICAN''
   \<and> \<not> str_contains (snd (race_mapping ! 4)) ''HISPANIC/LATINO - PUERTO RICAN''
   \<and> parse_race [''HISPANIC/LATINO - PUERTO RICAN''] = [''Hispanic'']"
proof -
  let ?v = "''HISPANIC/LATINO - PUERTO RICAN''"
  have p: "(parse_race, race_mapping) \<in> set text_parsers"
    by (simp add: text_parsers_def)
  have len: "length race_mapping = 5"
    by (simp add: race_mapping_def)
  have hit: "str_contains (snd (race_mapping ! 1)) ?v"
    by code_simp
  have m2: "\<not> str_contains (snd (race_mapping ! 2)) ?v" by code_simp
  have m3: "\<not> str_contains (snd (race_mapping ! 3)) ?v" by code_simp
  have m4: "\<not> str_contains (snd (race_mapping ! 4)) ?v" by code_simp
  have later: "\<forall>k. 1 < k \<and> k < length race_mapping \<longrightarrow> \<not> str_contains (snd (race_mapping ! k)) ?v"
  proof (intro allI impI)
    fix k assume "1 < k \<and> k < length race_mapping"
    then have "k = 2 \<or> k = 3 \<or> k = 4" using len by arith
    then show "\<not> str_contains (snd (race_mapping ! k)) ?v" using m2 m3 m4 by auto
  qed
  have lab: "fst (race_mapping ! 1) = ''Hispanic''"
    by (simp add: race_mapping_def)
  have "parse_race [?v] = [fst (race_mapping ! 1)]"
    using last_matching_rule_wins [THEN conjunct2, THEN conjunct1, rule_format,
        of parse_race race_mapping 1 ?v]
      p len hit later by simp
  then show ?thesis using p len hit m2 m3 m4 lab by simp
qed

section \<open>Values that match no rule\<close>

text \<open>
  Claim C2 at values that match no rule. \<open>parse_gender\<close> and \<open>parse_race\<close> end with
  \<open>replace("nan", ...)\<close> and give their default label; \<open>parse_careunit\<close>, \<open>parse_language\<close>
  and \<open>parse_insurance\<close> return the array as the loop left it, so the value keeps the text
  \<open>nan\<close> of the initial NaN.
\<close>

theorem unmatched_without_default:
  "parse_careunit [''Emergency Department''] = [''nan'']
   \<and> parse_language [''SPANISH''] = [''nan'']
   \<and> parse_insurance [''Private''] = [''nan'']
   \<and> parse_gender [''unknown''] = [''Other'']
   \<and> parse_race [''MARTIAN''] = [''Unknown'']"
  by code_simp

section \<open>The gender scenario\<close>

text \<open>
  Claim C4, as the code has it. In \<open>parse_gender\<close> the keys of the mapping, \<open>Male\<close> and
  \<open>Female\<close>, are the labels and \<open>M\<close> and \<open>F\<close> are the patterns searched for, as in every
  other parser of the module. On the values \<open>MALE\<close>, \<open>Female\<close>, \<open>unknown\<close> the parser returns
  \<open>Male\<close>, \<open>Female\<close>, \<open>Other\<close>, in that order.
\<close>

theorem parse_gender_scenario:
  "parse_gender [''MALE'', ''Female'', ''unknown''] = [''Male'', ''Female'', ''Other'']"
  by code_simp

text \<open>The labels are not the one-letter patterns.\<close>

theorem parse_gender_scenario_counterexample:
  "parse_gender [''MALE'', ''Female'', ''unknown''] \<noteq> [''M'', ''F'', ''Other'']"
  by code_simp

section \<open>Letter case\<close>










section \<open>Time of day\<close>

lemma time_bucket:
  assumes "h < 24"
  shows "where_loop between time_mapping h =
     (if h < 6 then ''00-06'' else if h < 12 then ''06-12''
      else if h < 18 then ''12-18'' else ''18-24'')"
  using assms by (simp add: where_loop_def time_mapping_def between_def)

text \<open>
  Claim C10. The hour ranges of \<open>parse_time\<close> include both of their ends, so the hours
  6, 12 and 18 each match two neighbouring rules, and the later rule's label is the one
  kept: \<open>06-12\<close>, \<open>12-18\<close>, \<open>18-24\<close>. Every hour from 0 to 23 matches a rule, so on
  timestamps the output holds the four bucket labels only, never \<open>nan\<close>.
\<close>

theorem parse_time_inclusive_ranges:
  assumes "\<forall>t \<in> set values. hour t < 24"
  shows "parse_time values =
       map (\<lambda>t. if hour t < 6 then ''00-06'' else if hour t < 12 then ''06-12''
                 else if hour t < 18 then ''12-18'' else ''18-24'') values
     \<and> ''nan'' \<notin> set (parse_time values)
     \<and> (\<forall>t \<in> set values. \<exists>r \<in> set time_mapping. between (snd r) (hour t))
     \<and> between (snd (time_mapping ! 0)) 6 \<and> between (snd (time_mapping ! 1)) 6
     \<and> between (snd (time_mapping ! 1)) 12 \<and> between (snd (time_mapping ! 2)) 12
     \<and> between (snd (time_mapping ! 2)) 18 \<and> between (snd (time_mapping ! 3)) 18"
proof -
  have eq: "parse_time values =
       map (\<lambda>t. if hour t < 6 then ''00-06'' else if hour t < 12 then ''06-12''
                 else if hour t < 18 then ''12-18'' else ''18-24'') values"
    using assms by (simp add: parse_time_def time_bucket)
  have nonan: "''nan'' \<notin> set (parse_time values)"
    unfolding eq by auto
  have some: "\<forall>t \<in> set values. \<exists>r \<in> set time_mapping. between (snd r) (hour t)"
  proof
    fix t assume "t \<in> set values"
    then have "hour t < 24" using assms by simp
    then show "\<exists>r \<in> set time_mapping. between (snd r) (hour t)"
      by (simp add: time_mapping_def between_def) arith
  qed
  have ends: "between (snd (time_mapping ! 0)) 6 \<and> between (snd (time_mapping ! 1)) 6
     \<and> between (snd (time_mapping ! 1)) 12 \<and> between (snd (time_mapping ! 2)) 12
     \<and> between (snd (time_mapping ! 2)) 18 \<and> between (snd (time_mapping ! 3)) 18"
    by (simp add: time_mapping_def between_def)
  show ?thesis using eq nonan some ends by blast
qed

theorem parse_time_inclusive_ranges_witness:
  "parse_time [\<lparr>year = 2150, month = 3, day = 14, hour = 6, minute = 0, second = 0\<rparr>,
               \<lparr>year = 2150, month = 3, day = 14, hour = 12, minute = 0, second = 0\<rparr>,
               \<lparr>year = 2150, month = 3, day = 14, hour = 18, minute = 0, second = 0\<rparr>,
               \<lparr>year = 2150, month = 3, day = 14, hour = 23, minute = 59, second = 59\<rparr>,
               \<lparr>year = 2150, month = 3, day = 14, hour = 0, minute = 0, second = 0\<rparr>]
     = [''06-12'', ''12-18'', ''18-24'', ''18-24'', ''00-06'']"
  using parse_time_inclusive_ranges [of
      "[\<lparr>year = 2150, month = 3, day = 14, hour = 6, minute = 0, second = 0\<rparr>,
               \<lparr>year = 2150, month = 3, day = 14, hour = 12, minute = 0, second = 0\<rparr>,
               \<lparr>year = 2150, month = 3, day = 14, hour = 18, minute = 0, second = 0\<rparr>,
               \<lparr>year = 2150, month = 3, day = 14, hour = 23, minute = 59, second = 59\<rparr>,
               \<lparr>year = 2150, month = 3, day = 14, hour = 0, minute = 0, second = 0\<rparr>]"]
  by simp

section \<open>Year anchoring\<close>

lemma anchor_labels:
  "map anchor_label delta_anchors =
     [''2008 - 2011'', ''2011 - 2014'', ''2014 - 2017'', ''2017 - 2020'', ''2020 - 2023'']"
  by code_simp

lemma anchor_delta_inside:
  assumes "2008 \<le> delta" and "delta < 2023"
  shows "anchor_delta delta =
     Inr (if delta < 2011 then anchor_label (2008, 2011)
          else if delta < 2014 then anchor_label (2011, 2014)
          else if delta < 2017 then anchor_label (2014, 2017)
          else if delta < 2020 then anchor_label (2017, 2020)
          else anchor_label (2020, 2023))"
  using assms by (simp add: anchor_delta_def delta_anchors_def in_range_def)

lemma anchor_delta_outside:
  assumes "delta < 2008 \<or> 2023 \<le> delta"
  shows "anchor_delta delta = Inl (Error ''UnboundLocalError'')"
  using assms by (auto simp add: anchor_delta_def delta_anchors_def in_range_def)

text \<open>
  Claim C3, as the code has it. For a \<open>delta\<close> from 2008 up to 2022, exactly one of the five
  ranges holds it and \<open>anchor_delta\<close> returns that range's label, \<open>start - end\<close>. For a
  \<open>delta\<close> below 2008, or 2023 and above, no range holds it, \<open>output\<close> is never assigned
  and the \<open>return\<close> raises Python's \<open>UnboundLocalError\<close>: the function returns no value,
  and the module has no error class of its own.
\<close>

theorem anchor_delta_buckets:
  "(2008 \<le> delta \<and> delta < 2023 \<longrightarrow>
      (\<exists>!da. da \<in> set delta_anchors \<and> in_range delta da)
      \<and> (\<forall>da \<in> set delta_anchors. in_range delta da \<longrightarrow> anchor_delta delta = Inr (anchor_label da)))
   \<and> (delta < 2008 \<or> 2023 \<le> delta \<longrightarrow> anchor_delta delta = Inl (Error ''UnboundLocalError''))
   \<and> map anchor_label delta_anchors =
       [''2008 - 2011'', ''2011 - 2014'', ''2014 - 2017'', ''2017 - 2020'', ''2020 - 2023'']"
proof (intro conjI impI)
  assume a: "2008 \<le> delta \<and> delta < 2023"
  show "\<exists>!da. da \<in> set delta_anchors \<and> in_range delta da"
  proof -
    from a consider "delta < 2011" | "2011 \<le> delta" "delta < 2014"
      | "2014 \<le> delta" "delta < 2017" | "2017 \<le> delta" "delta < 2020" | "2020 \<le> delta"
      by linarith
    then show ?thesis
    proof cases
      case 1
      with a show ?thesis
        by (intro ex1I [of _ "(2008, 2011)"]) (auto simp: delta_anchors_def in_range_def)
    next
      case 2
      with a show ?thesis
        by (intro ex1I [of _ "(2011, 2014)"]) (auto simp: delta_anchors_def in_range_def)
    next
      case 3
      with a show ?thesis
        by (intro ex1I [of _ "(2014, 2017)"]) (auto simp: delta_anchors_def in_range_def)
    next
      case 4
      with a show ?thesis
        by (intro ex1I [of _ "(2017, 2020)"]) (auto simp: delta_anchors_def in_range_def)
    next
      case 5
      with a show ?thesis
        by (intro ex1I [of _ "(2020, 2023)"]) (auto simp: delta_anchors_def in_range_def)
    qed
  qed
  show "\<forall>da \<in> set delta_anchors. in_range delta da \<longrightarrow> anchor_delta delta = Inr (anchor_label da)"
    using a anchor_delta_inside [of delta]
    by (auto simp: delta_anchors_def in_range_def)
next
  assume "delta < 2008 \<or> 2023 \<le> delta"
  then show "anchor_delta delta = Inl (Error ''UnboundLocalError'')"
    by (rule anchor_delta_outside)
next
  show "map anchor_label delta_anchors =
       [''2008 - 2011'', ''2011 - 2014'', ''2014 - 2017'', ''2017 - 2020'', ''2020 - 2023'']"
    by (rule anchor_labels)
qed

theorem anchor_delta_buckets_witness:
  "(2017, 2020) \<in> set delta_anchors \<and> in_range 2019 (2017, 2020)
   \<and> anchor_delta 2019 = Inr ''2017 - 2020''
   \<and> anchor_delta 2007 = Inl (Error ''UnboundLocalError'')
   \<and> anchor_delta 2023 = Inl (Error ''UnboundLocalError'')"
proof -
  have m: "(2017, 2020) \<in> set delta_anchors" by (simp add: delta_anchors_def)
  have r: "in_range 2019 (2017, 2020)" by (simp add: in_range_def)
  have l: "anchor_label (2017, 2020) = ''2017 - 2020''" by code_simp
  have "anchor_delta 2019 = Inr (anchor_label (2017, 2020))"
    using anchor_delta_buckets [of 2019] m r by auto
  moreover have "anchor_delta 2007 = Inl (Error ''UnboundLocalError'')"
    using anchor_delta_buckets [of 2007] by simp
  moreover have "anchor_delta 2023 = Inl (Error ''UnboundLocalError'')"
    using anchor_delta_buckets [of 2023] by simp
  ultimately show ?thesis using m r l by simp
qed

text \<open>The exception at 2007 and at 2023 is not an \<open>OutOfRangeError\<close>.\<close>

theorem out_of_range_counterexample:
  "anchor_delta 2007 = Inl (Error ''UnboundLocalError'')
   \<and> anchor_delta 2007 \<noteq> Inl (Error ''OutOfRangeError'')
   \<and> anchor_delta 2023 = Inl (Error ''UnboundLocalError'')
   \<and> anchor_delta 2023 \<noteq> Inl (Error ''OutOfRangeError'')"
  by code_simp

text \<open>
  Claim C8, as the code has it. The first integer of \<open>2017 - 2019\<close> is 2017, so the offset
  is 2018; with anchor year 2018 and an event in the year 2019, \<open>delta\<close> is
  \<open>2018 + (2019 - 2018) = 2019\<close>, and the label is \<open>2017 - 2020\<close>.
\<close>

theorem anchor_scenario:
  "group_offset ''2017 - 2019'' = Inr 2018
   \<and> parse_anchor_year [(''2017 - 2019'', date\<lparr>year := 2019\<rparr>, 2018)] = Inr [''2017 - 2020'']"
proof -
  have g: "group_offset ''2017 - 2019'' = Inr 2018" by code_simp
  have d: "anchor_delta 2019 = Inr ''2017 - 2020''" by code_simp
  show ?thesis using g d by (simp add: parse_anchor_year_def)
qed

text \<open>The label of the scenario is not \<open>2020 - 2023\<close>.\<close>

theorem anchor_scenario_counterexample:
  "parse_anchor_year
     [(''2017 - 2019'', \<lparr>year = 2019, month = 6, day = 1, hour = 0, minute = 0, second = 0\<rparr>, 2018)]
   \<noteq> Inr [''2020 - 2023'']"
  by code_simp

section \<open>Body-mass index\<close>



text \<open>
  The test for the Asian thresholds is a substring test, and \<open>caucasian\<close> ends in \<open>asian\<close>:
  a race text \<open>Caucasian\<close> is classified with the Asian thresholds.
\<close>

lemma caucasian_contains_asian:
  "occurs ''asian'' (lower ''Caucasian'') \<and> parse_row (Fin 29.9) (Some ''Caucasian'') = Inr ''Obesity''"
proof -
  have a: "occurs ''asian'' (lower ''Caucasian'')" by code_simp
  show ?thesis using a by (simp add: parse_row_def lt_def ge_def)
qed



text \<open>
  Claim C7 at a row with weight 45 kg and height 200 cm: the BMI is 11.25, below 16.5,
  and the label the code returns is spelled \<open>Severly Underweight\<close>.
\<close>

theorem severely_underweight_label:
  "bmi \<lparr>weight = Some 45, height = Some 200, race = Some ''WHITE''\<rparr> = Fin 11.25
   \<and> parse_bmi [\<lparr>weight = Some 45, height = Some 200, race = Some ''WHITE''\<rparr>] False
       = Inr [''Severly Underweight'']"
  by (simp add: parse_bmi_def bmi_def height_factor_def times_weight_def parse_row_def lt_def
      power2_eq_square)






end
